theory Spec2Isabelle
  imports Main
begin

section \<open>The activation and entitlement core of server.py\<close>

text \<open>
  The model follows \<^verbatim>\<open>src/server.py\<close>. Each Flask handler becomes a function from its
  inputs (the JSON body, the clock reading, the session flag) and the database to a response
  and the database afterwards: this is the handler run alone. \<open>activate\<close> and
  \<open>revoke_authorization\<close> read the tables with SELECT statements before the transaction
  that holds their writes begins, so each is also given as its two phases, the reads and the
  write transaction; calls that overlap on the threaded server are interleavings of phases.

  Conventions of the model:
  \<^item> A JSON body is the list of its fields, each a string value, as the clients of the
    repository (\<^verbatim>\<open>main.py\<close>, \<^verbatim>\<open>stress_test.py\<close>) send them. A field that is absent (or
    \<^verbatim>\<open>null\<close>) reads as Python's \<^verbatim>\<open>None\<close>, here \<open>None\<close>.
  \<^item> An instant is the number of microseconds since the epoch, a duration a number of
    microseconds. Python's \<^verbatim>\<open>datetime\<close> spans the years 1 to 9999 (\<open>datetime_min\<close> to
    \<open>datetime_max\<close>), and adding a duration raises \<^verbatim>\<open>OverflowError\<close> when the sum
    leaves that span. The tables keep instants as ISO-8601 text that \<^verbatim>\<open>fromisoformat\<close>
    reads back unchanged; the model keeps the instant itself.
  \<^item> A table with a primary key is a map from the key to the rest of the row. A Python
    dict whose order matters is the list of its items in insertion order.
\<close>

subsection \<open>Python values\<close>

type_synonym request = "(string \<times> string) list"

definition dict_get :: "request \<Rightarrow> string \<Rightarrow> string option" where
  \<comment> \<open>\<^verbatim>\<open>request.json.get(k)\<close>; of a repeated key the JSON parser keeps the last value.\<close>
  "dict_get data k = map_of (rev data) k"

fun py_str :: "string option \<Rightarrow> string" where
  \<comment> \<open>\<^verbatim>\<open>str(v)\<close> for \<^verbatim>\<open>v\<close> a string or \<^verbatim>\<open>None\<close>.\<close>
  "py_str None = ''None''"
| "py_str (Some s) = s"

fun truthy :: "string option \<Rightarrow> bool" where
  \<comment> \<open>Python's truth value of a string or \<^verbatim>\<open>None\<close>.\<close>
  "truthy None = False"
| "truthy (Some s) = (s \<noteq> [])"

subsection \<open>Configuration\<close>

definition timedelta_days :: "int \<Rightarrow> int" where
  \<comment> \<open>\<^verbatim>\<open>timedelta(days=v)\<close> in microseconds.\<close>
  "timedelta_days v = v * 86400000000"

definition datetime_min :: int where
  \<comment> \<open>\<^verbatim>\<open>datetime.min\<close>, 0001-01-01T00:00:00, in microseconds since the epoch.\<close>
  "datetime_min = - 62135596800000000"

definition datetime_max :: int where
  \<comment> \<open>\<^verbatim>\<open>datetime.max\<close>, 9999-12-31T23:59:59.999999, in microseconds since the epoch.\<close>
  "datetime_max = 253402300799999999"

definition CARD_DURATIONS :: "(string \<Rightarrow> int option) \<Rightarrow> string \<Rightarrow> int option" where
  \<comment> \<open>\<^verbatim>\<open>{k: timedelta(days=v) for k, v in config.get("CARD_DURATIONS", {}).items()}\<close>\<close>
  "CARD_DURATIONS card_days = (\<lambda>k. map_option timedelta_days (card_days k))"

definition default_card_days :: "string \<Rightarrow> int option" where
  \<comment> \<open>The \<^verbatim>\<open>CARD_DURATIONS\<close> entry of \<^verbatim>\<open>default_config\<close> in \<^verbatim>\<open>load_config\<close>.\<close>
  "default_card_days =
     [''monthly'' \<mapsto> 30, ''quarterly'' \<mapsto> 90, ''yearly'' \<mapsto> 365, ''trial'' \<mapsto> 7]"

subsection \<open>The tables\<close>

record code_row =
  code_type :: string
  used_by :: "string option"

record device_row =
  activation_code :: string
  card_type :: string
  activated_at :: int
  expires_at :: int

record db =
  codes :: "string \<Rightarrow> code_row option"
  devices :: "string \<Rightarrow> device_row option"

definition empty_db :: db where
  "empty_db = \<lparr>codes = Map.empty, devices = Map.empty\<rparr>"

subsection \<open>Content entries\<close>

text \<open>
  An entry of the dictionary table is the JSON object the builder scripts write
  (\<^verbatim>\<open>build_final_database.py\<close>, \<^verbatim>\<open>generate_json_database.py\<close>, \<^verbatim>\<open>update_database.py\<close>):
  each is created as \<^verbatim>\<open>{"glyph": char}\<close>, so \<^verbatim>\<open>glyph\<close> is always there and the object is
  never empty. \<open>is_phonetic_radical\<close> is the truth value of that field (absent reads as
  false), \<open>phonetic_radical\<close> is \<^verbatim>\<open>e.get("components", {}).get("phonetic_radical")\<close>, and
  \<open>explanation\<close> stands for the fields the server only passes through.
\<close>

record entry =
  glyph :: string
  pinyin :: "string option"
  char_type :: "string list"
  is_phonetic_radical :: bool
  phonetic_radical :: "string option"
  explanation :: string

record indexes =
  dictionary_data :: "(string \<times> entry) list"
  pinyin_index :: "(string \<times> entry list) list"
  char_type_index :: "(string \<times> entry list) list"

subsection \<open>Responses\<close>

datatype response =
    BadRequest              \<comment> \<open>400, the invalid-request error\<close>
  | StatusUnactivated       \<comment> \<open>200, status unactivated\<close>
  | StatusActivated int string  \<comment> \<open>200, status activated, with expires_at and card_type\<close>
  | StatusExpired int       \<comment> \<open>200, status expired, with expires_at\<close>
  | InvalidCode             \<comment> \<open>403, invalid activation code\<close>
  | AlreadyBound            \<comment> \<open>409, the device already has a binding\<close>
  | UnknownPlan             \<comment> \<open>500, invalid card type\<close>
  | ActivationOk int        \<comment> \<open>200, activated, with expires_at\<close>
  | Unauthorized            \<comment> \<open>403 of the guard: no binding\<close>
  | Expired                 \<comment> \<open>403 of the guard: subscription expired\<close>
  | NotLoggedIn             \<comment> \<open>401 or the redirect to the login page\<close>
  | NotFound                \<comment> \<open>404, device not found\<close>
  | Revoked                 \<comment> \<open>200, authorization revoked\<close>
  | Generated               \<comment> \<open>redirect after the codes were inserted\<close>
  | GenerateFailed          \<comment> \<open>redirect after a database error, nothing inserted\<close>
  | FormRendered            \<comment> \<open>the form is shown again: not submitted or not valid\<close>
  | SearchResults "entry list"  \<comment> \<open>200, the entries found\<close>
  | ServerError             \<comment> \<open>500, an exception no handler catches\<close>
  | DatabaseError           \<comment> \<open>500, the handler caught an \<^verbatim>\<open>sqlite3.Error\<close> and nothing was written\<close>

subsection \<open>The handlers\<close>

definition check_status :: "int \<Rightarrow> request \<Rightarrow> db \<Rightarrow> response \<times> db" where
  "check_status now data db =
    (let machine_id = py_str (dict_get data ''machine_id'')
     in if machine_id = [] then (BadRequest, db)
        else case devices db machine_id of
          None \<Rightarrow> (StatusUnactivated, db)
        | Some device_info \<Rightarrow>
            if expires_at device_info > now
            then (StatusActivated (expires_at device_info) (card_type device_info), db)
            else (StatusExpired (expires_at device_info), db))"

definition require_activated_device ::
  "(request \<Rightarrow> response) \<Rightarrow> int \<Rightarrow> request \<Rightarrow> db \<Rightarrow> response" where
  \<comment> \<open>The decorator: \<open>f\<close> is the handler it wraps.\<close>
  "require_activated_device f now data db =
    (let machine_id = py_str (dict_get data ''machine_id'')
     in if machine_id = [] then BadRequest
        else case devices db machine_id of
          None \<Rightarrow> Unauthorized
        | Some device_info \<Rightarrow>
            if expires_at device_info \<le> now then Expired else f data)"

definition activate ::
  "(string \<Rightarrow> int option) \<Rightarrow> int \<Rightarrow> request \<Rightarrow> db \<Rightarrow> response \<times> db" where
  \<comment> \<open>The handler run alone. \<open>durations\<close> is the global \<^verbatim>\<open>CARD_DURATIONS\<close>, \<open>now\<close> the
      clock reading. A \<^verbatim>\<open>timedelta\<close> is false exactly when it is zero. \<^verbatim>\<open>now + duration\<close>
      raises \<^verbatim>\<open>OverflowError\<close> outside the span of \<^verbatim>\<open>datetime\<close>; no handler catches it and
      nothing has been written yet. Run alone, neither the UPDATE nor the INSERT can raise
      (the device was just seen to have no row), so \<^verbatim>\<open>except sqlite3.Error\<close> has no branch
      here; it has one in \<open>activate_writes\<close>.\<close>
  "activate durations now data db =
    (let machine_id = py_str (dict_get data ''machine_id'');
         code_field = dict_get data ''code''
     in if \<not> (machine_id \<noteq> [] \<and> truthy code_field) then (BadRequest, db)
        else case code_field of
          None \<Rightarrow> (BadRequest, db)
        | Some code_str \<Rightarrow>
           (case codes db code_str of
              None \<Rightarrow> (InvalidCode, db)
            | Some code_info \<Rightarrow>
               if truthy (used_by code_info) then (InvalidCode, db)
               else (case devices db machine_id of
                  Some device_info \<Rightarrow> (AlreadyBound, db)
                | None \<Rightarrow>
                   (case durations (code_type code_info) of
                      None \<Rightarrow> (UnknownPlan, db)
                    | Some duration \<Rightarrow>
                       if duration = 0 then (UnknownPlan, db)
                       else if now + duration < datetime_min \<or> datetime_max < now + duration
                         then (ServerError, db)
                       else
                         (ActivationOk (now + duration),
                          db\<lparr>codes := (codes db)(code_str \<mapsto>
                                 code_info\<lparr>used_by := Some machine_id\<rparr>),
                             devices := (devices db)(machine_id \<mapsto>
                                 \<lparr>activation_code = code_str,
                                  card_type = code_type code_info,
                                  activated_at = now,
                                  expires_at = now + duration\<rparr>)\<rparr>)))))"

text \<open>
  The two phases of \<open>activate\<close>. The reads are lines 320 to 343 of the handler: the two
  SELECT statements, the lookup of the duration and the computation of \<^verbatim>\<open>expires_at\<close>.
  They end in a response or in the values the writes will use. The writes are lines 346 to
  352: the UPDATE of the code, which has no condition on \<^verbatim>\<open>used_by\<close>, and the INSERT of the
  binding, committed together. An INSERT for a device that has a row violates the primary
  key; the handler catches the error and the transaction is rolled back.
\<close>

record write_intent =
  w_machine_id :: string
  w_code_str :: string
  w_card_type :: string
  w_now :: int
  w_expires_at :: int

definition activate_reads ::
  "(string \<Rightarrow> int option) \<Rightarrow> int \<Rightarrow> request \<Rightarrow> db \<Rightarrow> response + write_intent" where
  "activate_reads durations now data db =
    (let machine_id = py_str (dict_get data ''machine_id'');
         code_field = dict_get data ''code''
     in if \<not> (machine_id \<noteq> [] \<and> truthy code_field) then Inl BadRequest
        else case code_field of
          None \<Rightarrow> Inl BadRequest
        | Some code_str \<Rightarrow>
           (case codes db code_str of
              None \<Rightarrow> Inl InvalidCode
            | Some code_info \<Rightarrow>
               if truthy (used_by code_info) then Inl InvalidCode
               else (case devices db machine_id of
                  Some device_info \<Rightarrow> Inl AlreadyBound
                | None \<Rightarrow>
                   (case durations (code_type code_info) of
                      None \<Rightarrow> Inl UnknownPlan
                    | Some duration \<Rightarrow>
                       if duration = 0 then Inl UnknownPlan
                       else if now + duration < datetime_min \<or> datetime_max < now + duration
                         then Inl ServerError
                       else Inr \<lparr>w_machine_id = machine_id, w_code_str = code_str,
                                 w_card_type = code_type code_info, w_now = now,
                                 w_expires_at = now + duration\<rparr>))))"

definition activate_writes :: "write_intent \<Rightarrow> db \<Rightarrow> response \<times> db" where
  "activate_writes w db =
    (let codes' = (case codes db (w_code_str w) of
                     None \<Rightarrow> codes db
                   | Some code_info \<Rightarrow>
                       (codes db)(w_code_str w \<mapsto> code_info\<lparr>used_by := Some (w_machine_id w)\<rparr>))
     in case devices db (w_machine_id w) of
          Some device_info \<Rightarrow> (DatabaseError, db)
        | None \<Rightarrow>
            (ActivationOk (w_expires_at w),
             db\<lparr>codes := codes',
                devices := (devices db)(w_machine_id w \<mapsto>
                    \<lparr>activation_code = w_code_str w,
                     card_type = w_card_type w,
                     activated_at = w_now w,
                     expires_at = w_expires_at w\<rparr>)\<rparr>))"

definition revoke_authorization :: "bool \<Rightarrow> request \<Rightarrow> db \<Rightarrow> response \<times> db" where
  \<comment> \<open>\<open>logged_in\<close> is \<^verbatim>\<open>session.get('logged_in')\<close>; the identifier is read without \<^verbatim>\<open>str\<close>.\<close>
  "revoke_authorization logged_in data db =
    (if \<not> logged_in then (NotLoggedIn, db)
     else case dict_get data ''machine_id'' of
       None \<Rightarrow> (BadRequest, db)
     | Some machine_id \<Rightarrow>
        if machine_id = [] then (BadRequest, db)
        else (case devices db machine_id of
           None \<Rightarrow> (NotFound, db)
         | Some device_info \<Rightarrow>
            (let code_to_reset = activation_code device_info;
                 devices' = (devices db)(machine_id := None);
                 codes' = (if code_to_reset \<noteq> []
                           then (case codes db code_to_reset of
                                   None \<Rightarrow> codes db
                                 | Some code_info \<Rightarrow>
                                     (codes db)(code_to_reset \<mapsto> code_info\<lparr>used_by := None\<rparr>))
                           else codes db)
             in (Revoked, db\<lparr>codes := codes', devices := devices'\<rparr>))))"

text \<open>
  The two phases of \<open>revoke_authorization\<close>: the SELECT of line 474, which ends in a
  response or in the device id and the code to reset, and the DELETE and UPDATE of lines
  481 to 485, committed together.
\<close>

definition revoke_reads :: "bool \<Rightarrow> request \<Rightarrow> db \<Rightarrow> response + string \<times> string" where
  "revoke_reads logged_in data db =
    (if \<not> logged_in then Inl NotLoggedIn
     else case dict_get data ''machine_id'' of
       None \<Rightarrow> Inl BadRequest
     | Some machine_id \<Rightarrow>
        if machine_id = [] then Inl BadRequest
        else (case devices db machine_id of
           None \<Rightarrow> Inl NotFound
         | Some device_info \<Rightarrow> Inr (machine_id, activation_code device_info)))"

definition revoke_writes :: "string \<times> string \<Rightarrow> db \<Rightarrow> response \<times> db" where
  "revoke_writes r db =
    (let machine_id = fst r;
         code_to_reset = snd r;
         devices' = (devices db)(machine_id := None);
         codes' = (if code_to_reset \<noteq> []
                   then (case codes db code_to_reset of
                           None \<Rightarrow> codes db
                         | Some code_info \<Rightarrow>
                             (codes db)(code_to_reset \<mapsto> code_info\<lparr>used_by := None\<rparr>))
                   else codes db)
     in (Revoked, db\<lparr>codes := codes', devices := devices'\<rparr>))"

fun insert_codes ::
  "string \<Rightarrow> string list \<Rightarrow> (string \<Rightarrow> code_row option) \<Rightarrow> (string \<Rightarrow> code_row option) option" where
  \<comment> \<open>\<^verbatim>\<open>executemany\<close> of the INSERT: row by row; a code that is already a primary key
      raises (\<open>None\<close>).\<close>
  "insert_codes ctype [] tbl = Some tbl"
| "insert_codes ctype (c # cs) tbl =
     (case tbl c of
        Some row \<Rightarrow> None
      | None \<Rightarrow> insert_codes ctype cs (tbl(c \<mapsto> \<lparr>code_type = ctype, used_by = None\<rparr>)))"

definition manage ::
  "(string \<Rightarrow> int option) \<Rightarrow> nat \<Rightarrow> bool \<Rightarrow> string \<Rightarrow> string list \<Rightarrow> db \<Rightarrow> response \<times> db" where
  \<comment> \<open>A submitted form. \<open>tokens\<close> are the tokens drawn from \<^verbatim>\<open>uuid4\<close>, one for each requested
      code, so the form's quantity is \<open>length tokens\<close>; \<open>limit\<close> is \<^verbatim>\<open>GENERATE_CODE_LIMIT\<close>.
      A database error rolls the whole batch back.\<close>
  "manage durations limit logged_in ctype tokens db =
    (if \<not> logged_in then (NotLoggedIn, db)
     else if \<not> (1 \<le> length tokens \<and> length tokens \<le> limit \<and> durations ctype \<noteq> None)
       then (FormRendered, db)
     else case insert_codes ctype tokens (codes db) of
       None \<Rightarrow> (GenerateFailed, db)
     | Some codes' \<Rightarrow> (Generated, db\<lparr>codes := codes'\<rparr>))"

subsection \<open>The content index\<close>

fun dict_set :: "'k \<Rightarrow> 'v \<Rightarrow> ('k \<times> 'v) list \<Rightarrow> ('k \<times> 'v) list" where
  \<comment> \<open>\<^verbatim>\<open>d[k] = v\<close>: a key that is there keeps its place, a new key goes last.\<close>
  "dict_set k v [] = [(k, v)]"
| "dict_set k v ((k', v') # kvs) =
     (if k' = k then (k, v) # kvs else (k', v') # dict_set k v kvs)"

definition setdefault_append ::
  "'k \<Rightarrow> 'v \<Rightarrow> ('k \<times> 'v list) list \<Rightarrow> ('k \<times> 'v list) list" where
  \<comment> \<open>\<^verbatim>\<open>d.setdefault(k, []).append(v)\<close>\<close>
  "setdefault_append k v d =
     (case map_of d k of None \<Rightarrow> d @ [(k, [v])] | Some vs \<Rightarrow> dict_set k (vs @ [v]) d)"

definition build_indexes_row ::
  "(string \<Rightarrow> string) \<Rightarrow> indexes \<Rightarrow> string \<times> entry \<Rightarrow> indexes" where
  \<comment> \<open>The body of the loop of \<^verbatim>\<open>build_indexes\<close> for one row \<open>(glyph, entry)\<close> of the
      dictionary table. \<open>lower\<close> is Python's \<^verbatim>\<open>str.lower\<close>.\<close>
  "build_indexes_row lower idx row =
     (let entry = snd row;
          pinyin_key = lower (case pinyin entry of None \<Rightarrow> [] | Some p \<Rightarrow> p)
      in \<lparr>dictionary_data = dict_set (fst row) entry (dictionary_data idx),
          pinyin_index =
            (if pinyin_key \<noteq> [] then setdefault_append pinyin_key entry (pinyin_index idx)
             else pinyin_index idx),
          char_type_index =
            foldl (\<lambda>d t. setdefault_append t entry d) (char_type_index idx) (char_type entry)\<rparr>)"

definition build_indexes :: "(string \<Rightarrow> string) \<Rightarrow> (string \<times> entry) list \<Rightarrow> indexes" where
  "build_indexes lower rows =
     foldl (build_indexes_row lower)
       \<lparr>dictionary_data = [], pinyin_index = [], char_type_index = []\<rparr> rows"

definition unique_results :: "entry list \<Rightarrow> entry list" where
  \<comment> \<open>\<^verbatim>\<open>list({item['glyph']: item for item in results}.values())\<close>\<close>
  "unique_results results =
     map snd (foldl (\<lambda>d item. dict_set (glyph item) item d) [] results)"

definition advanced_search :: "(string \<Rightarrow> string) \<Rightarrow> indexes \<Rightarrow> request \<Rightarrow> response" where
  \<comment> \<open>The handler under the decorator. \<^verbatim>\<open>query.lower()\<close> raises when the query is
      \<^verbatim>\<open>None\<close> (\<open>results = None\<close> below).\<close>
  "advanced_search lower idx data =
    (let search_type = dict_get data ''search_type'';
         query = dict_get data ''query'';
         results =
           (if search_type = Some ''definition'' then
              (case query of
                 None \<Rightarrow> Some []
               | Some q \<Rightarrow> (case map_of (dictionary_data idx) q of
                              None \<Rightarrow> Some [] | Some e \<Rightarrow> Some [e]))
            else if search_type = Some ''pinyin'' then
              (case query of
                 None \<Rightarrow> None
               | Some q \<Rightarrow> (case map_of (pinyin_index idx) (lower q) of
                              None \<Rightarrow> Some [] | Some es \<Rightarrow> Some es))
            else if search_type = Some ''char_type'' then
              (case query of
                 None \<Rightarrow> Some []
               | Some q \<Rightarrow> (case map_of (char_type_index idx) q of
                              None \<Rightarrow> Some [] | Some es \<Rightarrow> Some es))
            else if search_type = Some ''phonetic_group'' then
              (let entry = (case query of
                              None \<Rightarrow> None
                            | Some q \<Rightarrow> map_of (dictionary_data idx) q);
                   radical0 = (case entry of None \<Rightarrow> None | Some e \<Rightarrow> phonetic_radical e);
                   radical = (case entry of
                                None \<Rightarrow> radical0
                              | Some e \<Rightarrow> if is_phonetic_radical e then query else radical0)
               in if truthy radical then
                    Some [e \<leftarrow> map snd (dictionary_data idx).
                            phonetic_radical e = radical \<or> Some (glyph e) = radical]
                  else (case entry of None \<Rightarrow> Some [] | Some e \<Rightarrow> Some [e]))
            else Some [])
     in case results of
          None \<Rightarrow> ServerError
        | Some rs \<Rightarrow> SearchResults (unique_results rs))"

definition advanced_search_endpoint ::
  "(string \<Rightarrow> string) \<Rightarrow> indexes \<Rightarrow> int \<Rightarrow> request \<Rightarrow> db \<Rightarrow> response" where
  \<comment> \<open>\<^verbatim>\<open>@require_activated_device\<close> on \<^verbatim>\<open>advanced_search\<close>\<close>
  "advanced_search_endpoint lower idx now data db =
     require_activated_device (advanced_search lower idx) now data db"

text \<open>
  The group search as the specification words it: the leader is found through the
  back-reference \<open>phonetic_radical\<close>, and the key itself is the fallback when the entry is
  marked as a leader. Kept apart from the handler, to compare the two.
\<close>

definition spec_group_leader :: "entry \<Rightarrow> string \<Rightarrow> string option" where
  "spec_group_leader e k =
     (if truthy (phonetic_radical e) then phonetic_radical e
      else if is_phonetic_radical e then Some k else None)"

definition spec_group_search :: "(string \<times> entry) list \<Rightarrow> string \<Rightarrow> entry list" where
  "spec_group_search dd k =
     (case map_of dd k of
        None \<Rightarrow> []
      | Some e \<Rightarrow>
         (if truthy (spec_group_leader e k)
          then unique_results [x \<leftarrow> map snd dd.
                 phonetic_radical x = spec_group_leader e k
                 \<or> Some (glyph x) = spec_group_leader e k]
          else [e]))"

subsection \<open>Bindings and the codes they name\<close>

definition created_from :: "db \<Rightarrow> string \<Rightarrow> device_row \<Rightarrow> bool" where
  \<comment> \<open>The device \<open>d\<close> has the binding \<open>b\<close>, as \<open>activate\<close> creates it: neither the device
      id nor the code is empty, and the code is in the codes table with the binding's plan
      type.\<close>
  "created_from db d b \<longleftrightarrow>
     devices db d = Some b \<and> d \<noteq> [] \<and> activation_code b \<noteq> [] \<and>
     (\<exists>ci. codes db (activation_code b) = Some ci \<and> code_type ci = card_type b)"

definition bindings_ok :: "db \<Rightarrow> bool" where
  \<comment> \<open>Every binding names a code of the table whose \<open>used_by\<close> is the binding's device.\<close>
  "bindings_ok db \<longleftrightarrow>
     (\<forall>m b. devices db m = Some b \<longrightarrow>
        m \<noteq> [] \<and> activation_code b \<noteq> [] \<and>
        (\<exists>ci. codes db (activation_code b) = Some ci \<and> used_by ci = Some m
               \<and> code_type ci = card_type b))"

definition codes_ok :: "db \<Rightarrow> bool" where
  \<comment> \<open>Every code whose \<open>used_by\<close> is a device has the binding of that device naming it.\<close>
  "codes_ok db \<longleftrightarrow>
     (\<forall>c ci m. codes db c = Some ci \<longrightarrow> used_by ci = Some m \<longrightarrow>
        (\<exists>b. devices db m = Some b \<and> activation_code b = c))"

definition one_to_one :: "db \<Rightarrow> bool" where
  "one_to_one db \<longleftrightarrow> bindings_ok db \<and> codes_ok db"

definition keyed :: "entry set \<Rightarrow> (string \<times> entry) list \<Rightarrow> bool" where
  \<comment> \<open>What the dict comprehension of \<open>unique_results\<close> keeps true of the dict it builds.\<close>
  "keyed S d \<longleftrightarrow>
     distinct (map fst d) \<and> (\<forall>p \<in> set d. glyph (snd p) = fst p \<and> snd p \<in> S)"

subsection \<open>A scenario\<close>

text \<open>
  The scenario of the specification: five monthly codes are generated under the default
  configuration, and the device \<open>dev-1\<close> redeems the first at the instant 1000.
\<close>

definition default_durations :: "string \<Rightarrow> int option" where
  "default_durations = CARD_DURATIONS default_card_days"

definition db_generated :: db where
  "db_generated = snd (manage default_durations 5000 True ''monthly''
      [''1A2B3C4D'', ''5E6F7081'', ''92A3B4C5'', ''D6E7F809'', ''0A1B2C3D''] empty_db)"

definition db_dev1 :: db where
  "db_dev1 = snd (activate default_durations 1000
      [(''machine_id'', ''dev-1''), (''code'', ''1A2B3C4D'')] db_generated)"

text \<open>
  The configuration after the plan \<open>monthly\<close> has been taken out of \<^verbatim>\<open>config.json\<close>.
\<close>

definition durations_without_monthly :: "string \<Rightarrow> int option" where
  "durations_without_monthly = CARD_DURATIONS (default_card_days(''monthly'' := None))"

text \<open>
  Two calls of \<open>activate\<close> that overlap, from the devices \<open>dev-A\<close> and \<open>dev-B\<close>, both with
  the unused code \<open>5E6F7081\<close>: \<open>intent_a\<close> and \<open>intent_b\<close> are what their reads leave for
  their writes, and \<open>db_race\<close> is the database after the write transaction of \<open>dev-A\<close> and
  then that of \<open>dev-B\<close>.
\<close>

definition intent_a :: write_intent where
  "intent_a = \<lparr>w_machine_id = ''dev-A'', w_code_str = ''5E6F7081'', w_card_type = ''monthly'',
     w_now = 3000, w_expires_at = 2592000003000\<rparr>"

definition intent_b :: write_intent where
  "intent_b = \<lparr>w_machine_id = ''dev-B'', w_code_str = ''5E6F7081'', w_card_type = ''monthly'',
     w_now = 3001, w_expires_at = 2592000003001\<rparr>"

definition db_race :: db where
  "db_race = snd (activate_writes intent_b (snd (activate_writes intent_a db_dev1)))"

text \<open>
  A small dictionary: \<open>gong\<close> leads a group with the members \<open>kong\<close> and \<open>jiang\<close>, and
  \<open>kong\<close> leads a group of its own with the member \<open>qiang\<close>.
\<close>

definition e_gong :: entry where
  "e_gong = \<lparr>glyph = ''gong'', pinyin = Some ''gong'', char_type = [''pictograph''],
     is_phonetic_radical = True, phonetic_radical = None, explanation = ''work''\<rparr>"

definition e_kong :: entry where
  "e_kong = \<lparr>glyph = ''kong'', pinyin = Some ''kong'', char_type = [''phonetic''],
     is_phonetic_radical = True, phonetic_radical = Some ''gong'', explanation = ''empty''\<rparr>"

definition e_jiang :: entry where
  "e_jiang = \<lparr>glyph = ''jiang'', pinyin = Some ''jiang'', char_type = [''phonetic''],
     is_phonetic_radical = False, phonetic_radical = Some ''gong'', explanation = ''river''\<rparr>"

definition e_qiang :: entry where
  "e_qiang = \<lparr>glyph = ''qiang'', pinyin = Some ''qiang'', char_type = [''phonetic''],
     is_phonetic_radical = False, phonetic_radical = Some ''kong'', explanation = ''cavity''\<rparr>"

definition example_index :: indexes where
  "example_index = build_indexes id
     [(''gong'', e_gong), (''kong'', e_kong), (''jiang'', e_jiang), (''qiang'', e_qiang)]"

section \<open>The scenario, evaluated\<close>

lemma default_durations_monthly: "default_durations ''monthly'' = Some 2592000000000"
  by (simp add: default_durations_def CARD_DURATIONS_def default_card_days_def timedelta_days_def)

lemma db_generated_simps:
  "codes db_generated ''1A2B3C4D'' = Some \<lparr>code_type = ''monthly'', used_by = None\<rparr>"
  "codes db_generated ''5E6F7081'' = Some \<lparr>code_type = ''monthly'', used_by = None\<rparr>"
  "codes db_generated ''ZZZZZZZZ'' = None"
  "devices db_generated = Map.empty"
  by (simp_all add: db_generated_def manage_def default_durations_monthly empty_db_def)

lemma db_dev1_simps:
  "codes db_dev1 ''1A2B3C4D'' = Some \<lparr>code_type = ''monthly'', used_by = Some ''dev-1''\<rparr>"
  "codes db_dev1 ''5E6F7081'' = Some \<lparr>code_type = ''monthly'', used_by = None\<rparr>"
  "codes db_dev1 ''ZZZZZZZZ'' = None"
  "devices db_dev1 ''dev-1'' = Some \<lparr>activation_code = ''1A2B3C4D'', card_type = ''monthly'',
      activated_at = 1000, expires_at = 2592000001000\<rparr>"
  "devices db_dev1 ''dev-2'' = None"
  "devices db_dev1 ''None'' = None"
  by (simp_all add: db_dev1_def activate_def Let_def dict_get_def db_generated_simps
      default_durations_monthly datetime_min_def datetime_max_def)

lemma example_dictionary:
  "dictionary_data example_index =
     [(''gong'', e_gong), (''kong'', e_kong), (''jiang'', e_jiang), (''qiang'', e_qiang)]"
  by (simp add: example_index_def build_indexes_def build_indexes_row_def Let_def)

lemma example_entries:
  "glyph e_gong = ''gong''" "glyph e_kong = ''kong''"
  "glyph e_jiang = ''jiang''" "glyph e_qiang = ''qiang''"
  "phonetic_radical e_gong = None" "phonetic_radical e_kong = Some ''gong''"
  "phonetic_radical e_jiang = Some ''gong''" "phonetic_radical e_qiang = Some ''kong''"
  "is_phonetic_radical e_gong" "is_phonetic_radical e_kong"
  "\<not> is_phonetic_radical e_jiang" "\<not> is_phonetic_radical e_qiang"
  by (simp_all add: e_gong_def e_kong_def e_jiang_def e_qiang_def)

section \<open>Expiry\<close>

text \<open>
  C5. Both \<open>check_status\<close> and the guard classify a binding by comparing \<open>expires_at\<close>
  with the clock, and the boundary instant is excluded: the binding is active exactly when
  \<open>now < expires_at\<close>, so a binding with \<open>expires_at = now\<close> is expired. (The device id of a
  binding that \<open>activate\<close> creates is never empty, see \<open>activate_reads_intent\<close>.)
\<close>

theorem expiry_exclusive:
  assumes "devices db (py_str (dict_get data ''machine_id'')) = Some b"
    and "py_str (dict_get data ''machine_id'') \<noteq> []"
  shows "check_status now data db =
           (if now < expires_at b then (StatusActivated (expires_at b) (card_type b), db)
            else (StatusExpired (expires_at b), db))
       \<and> require_activated_device f now data db =
           (if now < expires_at b then f data else Expired)
       \<and> (expires_at b = now \<longrightarrow>
            check_status now data db = (StatusExpired now, db)
            \<and> require_activated_device f now data db = Expired)"
  using assms by (simp add: check_status_def require_activated_device_def)

theorem expiry_exclusive_witness:
  "check_status 2592000001000 [(''machine_id'', ''dev-1'')] db_dev1 =
      (StatusExpired 2592000001000, db_dev1)
   \<and> advanced_search_endpoint id example_index 2592000001000
        [(''machine_id'', ''dev-1'')] db_dev1 = Expired
   \<and> check_status 2592000000999 [(''machine_id'', ''dev-1'')] db_dev1 =
      (StatusActivated 2592000001000 ''monthly'', db_dev1)
   \<and> advanced_search_endpoint id example_index 2592000000999
        [(''machine_id'', ''dev-1'')] db_dev1 = SearchResults []"
  using expiry_exclusive [of db_dev1 "[(''machine_id'', ''dev-1'')]" _ 2592000001000
          "advanced_search id example_index"]
    expiry_exclusive [of db_dev1 "[(''machine_id'', ''dev-1'')]" _ 2592000000999
          "advanced_search id example_index"]
  by (simp add: dict_get_def db_dev1_simps advanced_search_endpoint_def advanced_search_def
      unique_results_def)

section \<open>Activation\<close>

lemma activate_snd_cases:
  "snd (activate D now data db) = db \<or> (\<exists>e. fst (activate D now data db) = ActivationOk e)"
  by (simp add: activate_def Let_def split: option.splits)

lemma activate_success_state:
  assumes "fst (activate D now data db) = ActivationOk e"
  obtains c ci dur where
    "py_str (dict_get data ''machine_id'') \<noteq> []" "dict_get data ''code'' = Some c" "c \<noteq> []"
    "codes db c = Some ci" "\<not> truthy (used_by ci)"
    "devices db (py_str (dict_get data ''machine_id'')) = None"
    "D (code_type ci) = Some dur" "dur \<noteq> 0" "e = now + dur"
    "snd (activate D now data db) =
       db\<lparr>codes := (codes db)(c \<mapsto> ci\<lparr>used_by := Some (py_str (dict_get data ''machine_id''))\<rparr>),
          devices := (devices db)(py_str (dict_get data ''machine_id'') \<mapsto>
             \<lparr>activation_code = c, card_type = code_type ci,
              activated_at = now, expires_at = now + dur\<rparr>)\<rparr>"
  using assms
  by (auto simp add: activate_def Let_def split: option.splits if_splits)

text \<open>
  C4. After every successful \<open>activate\<close> the binding of the device holds the code, the code's
  plan type, \<open>activated_at = now\<close> and \<open>expires_at = now + duration\<close>, where the duration is
  what \<^verbatim>\<open>CARD_DURATIONS\<close> gives for the code's plan type at the time of the call; any later
  \<open>check_status\<close> for that device before \<open>expires_at\<close> answers activated, with that plan type
  and that \<open>expires_at\<close>. A monthly code under the default configuration gives 30 days.
\<close>

theorem activate_expiry:
  assumes "activate D now data db = (ActivationOk e, db')"
  shows "\<exists>c ci dur. dict_get data ''code'' = Some c \<and> codes db c = Some ci
      \<and> D (code_type ci) = Some dur \<and> e = now + dur
      \<and> devices db' (py_str (dict_get data ''machine_id'')) =
           Some \<lparr>activation_code = c, card_type = code_type ci,
                 activated_at = now, expires_at = now + dur\<rparr>
      \<and> (\<forall>t data'.
            py_str (dict_get data' ''machine_id'') = py_str (dict_get data ''machine_id'')
            \<longrightarrow> t < now + dur
            \<longrightarrow> check_status t data' db' = (StatusActivated (now + dur) (code_type ci), db'))"
  using assms
  by (auto simp add: activate_def Let_def check_status_def split: option.splits if_splits)

theorem activate_expiry_witness:
  "activate default_durations 1000 [(''machine_id'', ''dev-1''), (''code'', ''1A2B3C4D'')]
     db_generated = (ActivationOk (1000 + timedelta_days 30), db_dev1)
   \<and> devices db_dev1 ''dev-1'' =
        Some \<lparr>activation_code = ''1A2B3C4D'', card_type = ''monthly'',
              activated_at = 1000, expires_at = 1000 + timedelta_days 30\<rparr>
   \<and> check_status 5000 [(''machine_id'', ''dev-1'')] db_dev1
     = (StatusActivated (1000 + timedelta_days 30) ''monthly'', db_dev1)"
proof -
  have a: "activate default_durations 1000 [(''machine_id'', ''dev-1''), (''code'', ''1A2B3C4D'')]
     db_generated = (ActivationOk 2592000001000, db_dev1)"
    by (simp add: db_dev1_def activate_def Let_def dict_get_def db_generated_simps
        default_durations_monthly datetime_min_def datetime_max_def)
  from activate_expiry [OF a] show ?thesis
    using a
    by (auto simp add: dict_get_def db_generated_simps default_durations_monthly
        timedelta_days_def)
qed

text \<open>
  C2, as amended. A call whose device id is empty, or whose code is missing or empty, fails
  with the invalid-request error. Every other call whose code is not in the codes table, or
  is there with \<open>used_by\<close> set to a device id, fails with \<open>InvalidCode\<close>. Both leave the
  database as it was. In particular a second device cannot redeem a code that was consumed.
\<close>

theorem activate_invalid_code:
  "(\<not> (py_str (dict_get data ''machine_id'') \<noteq> [] \<and> truthy (dict_get data ''code''))
      \<longrightarrow> activate D now data db = (BadRequest, db))
   \<and> (py_str (dict_get data ''machine_id'') \<noteq> [] \<and> dict_get data ''code'' = Some c \<and> c \<noteq> []
        \<and> (codes db c = None
            \<or> (\<exists>ci m. codes db c = Some ci \<and> used_by ci = Some m \<and> m \<noteq> []))
      \<longrightarrow> activate D now data db = (InvalidCode, db))"
  by (auto simp add: activate_def Let_def split: option.splits)

theorem activate_invalid_code_witness:
  "activate default_durations 2000 [(''machine_id'', ''dev-2''), (''code'', ''1A2B3C4D'')] db_dev1
     = (InvalidCode, db_dev1)
   \<and> activate default_durations 2000 [(''machine_id'', ''dev-2''), (''code'', ''ZZZZZZZZ'')] db_dev1
     = (InvalidCode, db_dev1)
   \<and> activate default_durations 2000 [(''machine_id'', ''dev-2''), (''code'', [])] db_dev1
     = (BadRequest, db_dev1)"
  using activate_invalid_code [of "[(''machine_id'', ''dev-2''), (''code'', ''1A2B3C4D'')]"
          default_durations 2000 db_dev1 "''1A2B3C4D''"]
    activate_invalid_code [of "[(''machine_id'', ''dev-2''), (''code'', ''ZZZZZZZZ'')]"
          default_durations 2000 db_dev1 "''ZZZZZZZZ''"]
    activate_invalid_code [of "[(''machine_id'', ''dev-2''), (''code'', [])]"
          default_durations 2000 db_dev1 "[]"]
  by (simp add: dict_get_def db_dev1_simps)

text \<open>
  The claim as it stands fails: the code \<open>ZZZZZZZZ\<close> is not in the table, and the call with
  the empty device id is answered with the invalid-request error, not \<open>InvalidCode\<close>. So is
  the call of \<open>dev-2\<close> with the empty code, which is not in the table either.
\<close>

theorem activate_invalid_code_counterexample:
  "codes db_dev1 ''ZZZZZZZZ'' = None
   \<and> activate default_durations 2000 [(''machine_id'', []), (''code'', ''ZZZZZZZZ'')] db_dev1
       = (BadRequest, db_dev1)
   \<and> codes db_dev1 [] = None
   \<and> activate default_durations 2000 [(''machine_id'', ''dev-2''), (''code'', [])] db_dev1
       = (BadRequest, db_dev1)
   \<and> BadRequest \<noteq> InvalidCode"
  by (simp add: activate_def Let_def dict_get_def db_dev1_simps db_dev1_def db_generated_def
      manage_def default_durations_monthly empty_db_def)

text \<open>
  C3, as amended. For a device that has a binding, every further \<open>activate\<close> fails and leaves
  the database as it was, so the device keeps its one binding. The code is examined before
  the device: the answer is \<open>AlreadyBound\<close> exactly when the code is in the table and unused,
  \<open>InvalidCode\<close> when the code is not in the table or is used, and the invalid-request error
  when the device id is empty or the code is missing or empty.
\<close>

theorem activate_bound_device:
  assumes "devices db (py_str (dict_get data ''machine_id'')) = Some b"
  shows "snd (activate D now data db) = db
    \<and> (fst (activate D now data db) = AlreadyBound) =
        (py_str (dict_get data ''machine_id'') \<noteq> [] \<and>
         (\<exists>c ci. dict_get data ''code'' = Some c \<and> c \<noteq> [] \<and> codes db c = Some ci
            \<and> \<not> truthy (used_by ci)))
    \<and> (fst (activate D now data db) = InvalidCode) =
        (py_str (dict_get data ''machine_id'') \<noteq> [] \<and>
         (\<exists>c. dict_get data ''code'' = Some c \<and> c \<noteq> [] \<and>
            (case codes db c of None \<Rightarrow> True | Some ci \<Rightarrow> truthy (used_by ci))))
    \<and> (fst (activate D now data db) = BadRequest) =
        (\<not> (py_str (dict_get data ''machine_id'') \<noteq> [] \<and> truthy (dict_get data ''code'')))"
  using assms
  by (auto simp add: activate_def Let_def split: option.splits)

theorem activate_bound_device_witness:
  "activate default_durations 2000 [(''machine_id'', ''dev-1''), (''code'', ''5E6F7081'')] db_dev1
     = (AlreadyBound, db_dev1)"
  using activate_bound_device [of db_dev1 "[(''machine_id'', ''dev-1''), (''code'', ''5E6F7081'')]"
          _ default_durations 2000]
  by (simp add: dict_get_def db_dev1_simps prod_eq_iff)

text \<open>
  The claim as it stands fails: \<open>dev-1\<close> has a binding, and its further call with the code
  it has consumed is answered \<open>InvalidCode\<close>, not \<open>AlreadyBound\<close>.
\<close>

theorem activate_bound_device_counterexample:
  "devices db_dev1 ''dev-1'' =
      Some \<lparr>activation_code = ''1A2B3C4D'', card_type = ''monthly'',
            activated_at = 1000, expires_at = 2592000001000\<rparr>
   \<and> activate default_durations 2000 [(''machine_id'', ''dev-1''), (''code'', ''1A2B3C4D'')] db_dev1
       = (InvalidCode, db_dev1)
   \<and> InvalidCode \<noteq> AlreadyBound"
  by (simp add: activate_def Let_def dict_get_def db_dev1_simps)

section \<open>Status checks\<close>

text \<open>
  C7, as amended. \<open>check_status\<close> never changes the database. A second call on the database
  the first one left returns the same result whenever the two clock readings lie on the same
  side of the binding's \<open>expires_at\<close> (always, when the device has no binding): expiry is
  computed from the clock at each call.
\<close>

theorem check_status_read_only:
  "snd (check_status now data db) = db
   \<and> ((case devices db (py_str (dict_get data ''machine_id'')) of
          None \<Rightarrow> True
        | Some b \<Rightarrow> (now < expires_at b) = (now' < expires_at b))
       \<longrightarrow> fst (check_status now' data (snd (check_status now data db)))
           = fst (check_status now data db))"
  by (auto simp add: check_status_def Let_def split: option.splits)

theorem check_status_read_only_witness:
  "snd (check_status 5000 [(''machine_id'', ''dev-1'')] db_dev1) = db_dev1
   \<and> fst (check_status 6000 [(''machine_id'', ''dev-1'')]
           (snd (check_status 5000 [(''machine_id'', ''dev-1'')] db_dev1)))
     = fst (check_status 5000 [(''machine_id'', ''dev-1'')] db_dev1)
   \<and> fst (check_status 5000 [(''machine_id'', ''dev-1'')] db_dev1)
     = StatusActivated 2592000001000 ''monthly''"
  using check_status_read_only [of 5000 "[(''machine_id'', ''dev-1'')]" db_dev1 6000]
  by (simp add: dict_get_def db_dev1_simps check_status_def)

text \<open>
  The claim as it stands fails: with nothing written in between, the call one microsecond
  before \<open>expires_at\<close> answers activated and the call at \<open>expires_at\<close> answers expired.
\<close>

theorem check_status_read_only_counterexample:
  "fst (check_status 2592000000999 [(''machine_id'', ''dev-1'')] db_dev1)
     = StatusActivated 2592000001000 ''monthly''
   \<and> snd (check_status 2592000000999 [(''machine_id'', ''dev-1'')] db_dev1) = db_dev1
   \<and> fst (check_status 2592000001000 [(''machine_id'', ''dev-1'')]
           (snd (check_status 2592000000999 [(''machine_id'', ''dev-1'')] db_dev1)))
     = StatusExpired 2592000001000"
  by (simp add: dict_get_def db_dev1_simps check_status_def)

section \<open>A request without a device id\<close>

text \<open>
  C9, as amended. When the body has no \<open>machine_id\<close>, the identifier is the string \<open>None\<close>:
  \<open>check_status\<close> and the guard look that device up and never answer with the invalid-request
  error, and \<open>activate\<close> does what it does for the body with \<open>machine_id\<close> set to that string,
  binding it like any device. \<open>activate\<close> still answers with the invalid-request error
  exactly when the code is missing or empty.
\<close>

theorem missing_machine_id:
  assumes "dict_get data ''machine_id'' = None"
  shows "check_status now data db =
           (case devices db ''None'' of
              None \<Rightarrow> (StatusUnactivated, db)
            | Some b \<Rightarrow> if now < expires_at b
                        then (StatusActivated (expires_at b) (card_type b), db)
                        else (StatusExpired (expires_at b), db))
     \<and> require_activated_device f now data db =
           (case devices db ''None'' of
              None \<Rightarrow> Unauthorized
            | Some b \<Rightarrow> if expires_at b \<le> now then Expired else f data)
     \<and> activate D now data db = activate D now (data @ [(''machine_id'', ''None'')]) db
     \<and> (fst (activate D now data db) = BadRequest) = (\<not> truthy (dict_get data ''code''))"
  using assms
  by (auto simp add: check_status_def require_activated_device_def activate_def Let_def
      dict_get_def split: option.splits)

theorem missing_machine_id_witness:
  "activate default_durations 3000 [(''code'', ''5E6F7081'')] db_dev1 =
     activate default_durations 3000 [(''code'', ''5E6F7081''), (''machine_id'', ''None'')] db_dev1
   \<and> fst (activate default_durations 3000 [(''code'', ''5E6F7081'')] db_dev1)
       = ActivationOk 2592000003000
   \<and> devices (snd (activate default_durations 3000 [(''code'', ''5E6F7081'')] db_dev1)) ''None''
       = Some \<lparr>activation_code = ''5E6F7081'', card_type = ''monthly'',
               activated_at = 3000, expires_at = 2592000003000\<rparr>
   \<and> check_status 3000 [] db_dev1 = (StatusUnactivated, db_dev1)"
  using missing_machine_id [of "[(''code'', ''5E6F7081'')]" 3000 db_dev1 _ default_durations]
     missing_machine_id [of "[]" 3000 db_dev1 _ default_durations]
  by (simp add: dict_get_def db_dev1_simps activate_def Let_def default_durations_monthly
      datetime_min_def datetime_max_def)

text \<open>
  The claim as it stands fails for \<open>activate\<close>: the empty body has no \<open>machine_id\<close>, and the
  answer is the invalid-request error, because the code is missing.
\<close>

theorem missing_machine_id_counterexample:
  "dict_get [] ''machine_id'' = None
   \<and> activate default_durations 3000 [] db_dev1 = (BadRequest, db_dev1)"
  by (simp add: dict_get_def activate_def Let_def)

section \<open>The phases of the handlers, and calls that overlap\<close>

text \<open>
  Run one after the other with nothing in between, the phases are the handler.
\<close>

lemma activate_split:
  "activate D now data db =
     (case activate_reads D now data db of
        Inl r \<Rightarrow> (r, db)
      | Inr w \<Rightarrow> activate_writes w db)"
  by (simp add: activate_def activate_reads_def activate_writes_def Let_def split: option.splits)

lemma revoke_split:
  "revoke_authorization logged_in data db =
     (case revoke_reads logged_in data db of
        Inl r \<Rightarrow> (r, db)
      | Inr r \<Rightarrow> revoke_writes r db)"
  by (simp add: revoke_authorization_def revoke_reads_def revoke_writes_def Let_def
      split: option.splits)

lemma activate_reads_intent:
  assumes "activate_reads D now data db = Inr w"
  shows "w_machine_id w \<noteq> [] \<and> w_code_str w \<noteq> []
     \<and> (\<exists>ci. codes db (w_code_str w) = Some ci \<and> code_type ci = w_card_type w
              \<and> \<not> truthy (used_by ci))
     \<and> devices db (w_machine_id w) = None"
  using assms
  by (auto simp add: activate_reads_def Let_def split: option.splits if_splits)

text \<open>
  Two calls from different devices that have both finished their reads on the same database
  both succeed in their writes, whatever their codes: the second write transaction does not
  look at what the first one wrote.
\<close>

lemma overlapping_activations:
  assumes "activate_reads D t1 data1 db = Inr w1" and "activate_reads D' t2 data2 db = Inr w2"
    and "w_machine_id w1 \<noteq> w_machine_id w2"
  shows "fst (activate_writes w1 db) = ActivationOk (w_expires_at w1)
     \<and> fst (activate_writes w2 (snd (activate_writes w1 db))) = ActivationOk (w_expires_at w2)"
  using activate_reads_intent [OF assms(1)] activate_reads_intent [OF assms(2)] assms(3)
  by (simp add: activate_writes_def Let_def)

text \<open>
  C1. The claim asks that of the calls of \<open>activate\<close> that different devices make at the same
  time with one code, exactly one succeeds and the others fail with \<open>InvalidCode\<close>. The
  handler does not do that. In the scenario the code \<open>5E6F7081\<close> is unused; the calls of
  \<open>dev-A\<close> and \<open>dev-B\<close> with it both finish their reads before either writes, and then both
  write transactions succeed: both calls are answered with success.
\<close>

theorem concurrent_activate_race:
  "codes db_dev1 ''5E6F7081'' = Some \<lparr>code_type = ''monthly'', used_by = None\<rparr>
   \<and> activate_reads default_durations 3000
        [(''machine_id'', ''dev-A''), (''code'', ''5E6F7081'')] db_dev1 = Inr intent_a
   \<and> activate_reads default_durations 3001
        [(''machine_id'', ''dev-B''), (''code'', ''5E6F7081'')] db_dev1 = Inr intent_b
   \<and> fst (activate_writes intent_a db_dev1) = ActivationOk 2592000003000
   \<and> fst (activate_writes intent_b (snd (activate_writes intent_a db_dev1)))
        = ActivationOk 2592000003001"
  by (simp add: activate_reads_def activate_writes_def Let_def dict_get_def db_dev1_simps
      db_dev1_def activate_def db_generated_simps
      default_durations_monthly datetime_min_def datetime_max_def intent_a_def intent_b_def)

section \<open>Bindings and redeemed codes\<close>

text \<open>
  Each handler, run alone, keeps bindings and redeemed codes in one-to-one correspondence,
  under any configuration.
\<close>

lemma one_to_one_empty: "one_to_one empty_db"
  by (simp add: one_to_one_def bindings_ok_def codes_ok_def empty_db_def)

lemma unused_is_None:
  assumes "one_to_one db" "codes db c = Some ci" "\<not> truthy (used_by ci)"
  shows "used_by ci = None"
proof (cases "used_by ci")
  case None
  then show ?thesis .
next
  case (Some m)
  with assms have "m = []" by simp
  moreover from assms Some obtain b where "devices db m = Some b"
    unfolding one_to_one_def codes_ok_def by blast
  ultimately show ?thesis
    using assms(1) unfolding one_to_one_def bindings_ok_def by blast
qed

lemma one_to_one_activate:
  assumes "one_to_one db"
  shows "one_to_one (snd (activate D now data db))"
proof -
  from activate_snd_cases [of D now data db]
  show ?thesis
  proof
    assume "snd (activate D now data db) = db"
    with assms show ?thesis by simp
  next
    assume "\<exists>e. fst (activate D now data db) = ActivationOk e"
    then obtain e where e: "fst (activate D now data db) = ActivationOk e" ..
    from e obtain c ci dur where h:
      "py_str (dict_get data ''machine_id'') \<noteq> []" "dict_get data ''code'' = Some c" "c \<noteq> []"
      "codes db c = Some ci" "\<not> truthy (used_by ci)"
      "devices db (py_str (dict_get data ''machine_id'')) = None"
      and s: "snd (activate D now data db) =
       db\<lparr>codes := (codes db)(c \<mapsto> ci\<lparr>used_by := Some (py_str (dict_get data ''machine_id''))\<rparr>),
          devices := (devices db)(py_str (dict_get data ''machine_id'') \<mapsto>
             \<lparr>activation_code = c, card_type = code_type ci,
              activated_at = now, expires_at = now + dur\<rparr>)\<rparr>"
      by (rule activate_success_state)
    have u: "used_by ci = None" using unused_is_None [OF assms h(4) h(5)] .
    have b: "bindings_ok db" and k: "codes_ok db"
      using assms by (simp_all add: one_to_one_def)
    have "bindings_ok (snd (activate D now data db))"
      unfolding s bindings_ok_def using b h u
      by (auto simp add: bindings_ok_def) (metis option.distinct(1) option.inject)+
    moreover have "codes_ok (snd (activate D now data db))"
      unfolding s codes_ok_def using k h u
      by (auto simp add: codes_ok_def) (metis option.distinct(1))+
    ultimately show ?thesis by (simp add: one_to_one_def)
  qed
qed

lemma one_to_one_revoke:
  assumes "one_to_one db"
  shows "one_to_one (snd (revoke_authorization logged_in data db))"
proof (cases "fst (revoke_authorization logged_in data db) = Revoked")
  case False
  then have "snd (revoke_authorization logged_in data db) = db"
    by (auto simp add: revoke_authorization_def Let_def split: option.splits if_splits)
  with assms show ?thesis by simp
next
  case True
  then obtain m b where h:
    "dict_get data ''machine_id'' = Some m" "m \<noteq> []" "devices db m = Some b"
    by (auto simp add: revoke_authorization_def Let_def split: option.splits if_splits)
  have bo: "bindings_ok db" and k: "codes_ok db"
    using assms by (simp_all add: one_to_one_def)
  from bo h obtain ci where ci:
    "activation_code b \<noteq> []" "codes db (activation_code b) = Some ci" "used_by ci = Some m"
    unfolding bindings_ok_def by blast
  have s: "snd (revoke_authorization logged_in data db) =
      db\<lparr>codes := (codes db)(activation_code b \<mapsto> ci\<lparr>used_by := None\<rparr>),
         devices := (devices db)(m := None)\<rparr>"
    using True h ci
    by (auto simp add: revoke_authorization_def Let_def split: option.splits if_splits)
  have "bindings_ok (snd (revoke_authorization logged_in data db))"
    unfolding s bindings_ok_def using bo ci h
    by (auto simp add: bindings_ok_def) (metis option.inject)+
  moreover have "codes_ok (snd (revoke_authorization logged_in data db))"
    unfolding s codes_ok_def using k ci h
    by (auto simp add: codes_ok_def) (metis option.inject)+
  ultimately show ?thesis by (simp add: one_to_one_def)
qed

lemma insert_codes_result:
  "insert_codes ctype ts tbl = Some tbl' \<Longrightarrow>
     tbl' c = tbl c \<or> (tbl c = None \<and> tbl' c = Some \<lparr>code_type = ctype, used_by = None\<rparr>)"
proof (induction ts arbitrary: tbl)
  case Nil
  then show ?case by simp
next
  case (Cons t ts)
  then show ?case
    by (fastforce split: option.splits if_splits)
qed

lemma one_to_one_manage:
  assumes "one_to_one db"
  shows "one_to_one (snd (manage D L logged_in ctype tokens db))"
proof (cases "fst (manage D L logged_in ctype tokens db) = Generated")
  case False
  then have "snd (manage D L logged_in ctype tokens db) = db"
    by (auto simp add: manage_def split: option.splits if_splits)
  with assms show ?thesis by simp
next
  case True
  then obtain tbl' where t: "insert_codes ctype tokens (codes db) = Some tbl'"
    and s: "snd (manage D L logged_in ctype tokens db) = db\<lparr>codes := tbl'\<rparr>"
    by (auto simp add: manage_def split: option.splits if_splits)
  have r: "\<And>c. tbl' c = codes db c \<or>
       (codes db c = None \<and> tbl' c = Some \<lparr>code_type = ctype, used_by = None\<rparr>)"
    using insert_codes_result [OF t] .
  have bo: "bindings_ok db" and k: "codes_ok db"
    using assms by (simp_all add: one_to_one_def)
  have "bindings_ok (db\<lparr>codes := tbl'\<rparr>)"
    unfolding bindings_ok_def
  proof (intro allI impI)
    fix m b assume "devices (db\<lparr>codes := tbl'\<rparr>) m = Some b"
    then have d: "devices db m = Some b" by simp
    with bo obtain ci where ci:
      "codes db (activation_code b) = Some ci" "used_by ci = Some m" "code_type ci = card_type b"
      unfolding bindings_ok_def by blast
    from r [of "activation_code b"] ci have "tbl' (activation_code b) = Some ci" by auto
    with d bo ci show "m \<noteq> [] \<and> activation_code b \<noteq> [] \<and>
        (\<exists>ci. codes (db\<lparr>codes := tbl'\<rparr>) (activation_code b) = Some ci \<and> used_by ci = Some m
               \<and> code_type ci = card_type b)"
      unfolding bindings_ok_def by auto
  qed
  moreover have "codes_ok (db\<lparr>codes := tbl'\<rparr>)"
    unfolding codes_ok_def
  proof (intro allI impI)
    fix c ci m assume a: "codes (db\<lparr>codes := tbl'\<rparr>) c = Some ci" "used_by ci = Some m"
    from r [of c] a have "codes db c = Some ci" by auto
    with k a show "\<exists>b. devices (db\<lparr>codes := tbl'\<rparr>) m = Some b \<and> activation_code b = c"
      unfolding codes_ok_def by auto
  qed
  ultimately show ?thesis unfolding s by (simp add: one_to_one_def)
qed

text \<open>
  C10. The claim asks that in every database the handlers reach from the empty one, each
  binding names a code whose \<open>used_by\<close> is the binding's device, and each redeemed code has
  the binding of the device in its \<open>used_by\<close>. Calls that overlap break it. \<open>db_dev1\<close> is
  reached from the empty database by \<open>manage\<close> and \<open>activate\<close>; after the overlapping calls of
  \<open>dev-A\<close> and \<open>dev-B\<close>, in \<open>db_race\<close>, the binding of \<open>dev-A\<close> names the code \<open>5E6F7081\<close>,
  whose \<open>used_by\<close> is \<open>dev-B\<close>, and two bindings name that one code.
\<close>

theorem race_breaks_one_to_one:
  "activate_reads default_durations 3000
        [(''machine_id'', ''dev-A''), (''code'', ''5E6F7081'')] db_dev1 = Inr intent_a
   \<and> activate_reads default_durations 3001
        [(''machine_id'', ''dev-B''), (''code'', ''5E6F7081'')] db_dev1 = Inr intent_b
   \<and> devices db_race ''dev-A'' =
        Some \<lparr>activation_code = ''5E6F7081'', card_type = ''monthly'',
              activated_at = 3000, expires_at = 2592000003000\<rparr>
   \<and> devices db_race ''dev-B'' =
        Some \<lparr>activation_code = ''5E6F7081'', card_type = ''monthly'',
              activated_at = 3001, expires_at = 2592000003001\<rparr>
   \<and> codes db_race ''5E6F7081'' = Some \<lparr>code_type = ''monthly'', used_by = Some ''dev-B''\<rparr>"
  by (simp add: activate_reads_def activate_writes_def Let_def dict_get_def db_dev1_simps
      db_dev1_def activate_def db_generated_simps db_race_def
      default_durations_monthly datetime_min_def datetime_max_def intent_a_def intent_b_def)

section \<open>Revocation\<close>

text \<open>
  A binding that \<open>activate\<close> creates is \<open>created_from\<close> its code, also when the write
  transaction runs on a later database than the reads, as long as the code's row is still
  there; no write transaction of any handler removes a row of the codes table or changes
  its plan type, and none but a revocation of the device itself touches the binding.
\<close>

lemma activate_writes_creates:
  assumes "activate_reads D now data db0 = Inr w"
    and "codes db (w_code_str w) = Some ci" and "code_type ci = w_card_type w"
    and "fst (activate_writes w db) = ActivationOk e"
  shows "created_from (snd (activate_writes w db)) (w_machine_id w)
           \<lparr>activation_code = w_code_str w, card_type = w_card_type w,
            activated_at = w_now w, expires_at = w_expires_at w\<rparr>"
  using assms activate_reads_intent [OF assms(1)]
  by (auto simp add: activate_writes_def created_from_def Let_def split: option.splits)

lemma code_kept_by_activate_writes:
  "codes db c = Some ci \<Longrightarrow>
   \<exists>ci'. codes (snd (activate_writes w db)) c = Some ci' \<and> code_type ci' = code_type ci"
  by (auto simp add: activate_writes_def Let_def split: option.splits)

lemma code_kept_by_revoke_writes:
  "codes db c = Some ci \<Longrightarrow>
   \<exists>ci'. codes (snd (revoke_writes r db)) c = Some ci' \<and> code_type ci' = code_type ci"
  by (auto simp add: revoke_writes_def Let_def split: option.splits)

lemma code_kept_by_manage:
  assumes "codes db c = Some ci"
  shows "\<exists>ci'. codes (snd (manage D L logged_in ctype tokens db)) c = Some ci'
           \<and> code_type ci' = code_type ci"
proof (cases "insert_codes ctype tokens (codes db)")
  case None
  with assms show ?thesis by (simp add: manage_def)
next
  case (Some tbl')
  from insert_codes_result [OF Some, of c] assms have "tbl' c = Some ci" by auto
  with assms Some show ?thesis by (simp add: manage_def)
qed

lemma created_from_kept_by_activate_writes:
  "created_from db d b \<Longrightarrow> created_from (snd (activate_writes w db)) d b"
  by (auto simp add: activate_writes_def created_from_def Let_def split: option.splits)

lemma created_from_kept_by_revoke_writes:
  "created_from db d b \<Longrightarrow> fst r \<noteq> d \<Longrightarrow> created_from (snd (revoke_writes r db)) d b"
  by (auto simp add: revoke_writes_def created_from_def Let_def split: option.splits)

lemma created_from_kept_by_manage:
  assumes "created_from db d b"
  shows "created_from (snd (manage D L logged_in ctype tokens db)) d b"
proof -
  from assms obtain ci where
    c: "codes db (activation_code b) = Some ci" "code_type ci = card_type b"
    unfolding created_from_def by blast
  from code_kept_by_manage [OF c(1), of D L logged_in ctype tokens] c(2)
  obtain ci' where
    "codes (snd (manage D L logged_in ctype tokens db)) (activation_code b) = Some ci'"
    "code_type ci' = card_type b" by auto
  moreover have "devices (snd (manage D L logged_in ctype tokens db)) = devices db"
    by (simp add: manage_def split: option.splits)
  ultimately show ?thesis using assms unfolding created_from_def by auto
qed

text \<open>
  C6, as amended. Let the device \<open>d\<close> have the binding \<open>b\<close>, created from the code
  \<open>activation_code b\<close>. The administrator's \<open>revoke_authorization\<close> for \<open>d\<close> succeeds, deletes
  the binding and resets the code's \<open>used_by\<close> to null. An \<open>activate\<close> of \<open>d\<close> with that code
  that follows directly, at the instant \<open>now\<close> and under the duration table \<open>D\<close> then in force,
  succeeds exactly when \<open>D\<close> has a duration other than zero for the binding's plan type and
  \<open>now\<close> plus that duration is within the span of \<^verbatim>\<open>datetime\<close>. It then gives the binding
  back with the same device, code and plan type and a new window, which starts at \<open>now\<close> and
  lasts that duration, and sets the code's \<open>used_by\<close> to \<open>d\<close>. Without such a duration it fails
  with \<open>UnknownPlan\<close>, and outside the span with a server error; then the device stays
  without binding and the code unused.
\<close>

theorem revoke_then_activate:
  assumes "created_from db d b"
  shows "\<exists>db1. revoke_authorization True [(''machine_id'', d)] db = (Revoked, db1)
      \<and> devices db1 d = None
      \<and> codes db1 (activation_code b) = Some \<lparr>code_type = card_type b, used_by = None\<rparr>
      \<and> activate D now [(''machine_id'', d), (''code'', activation_code b)] db1 =
          (case D (card_type b) of
             None \<Rightarrow> (UnknownPlan, db1)
           | Some dur \<Rightarrow>
               if dur = 0 then (UnknownPlan, db1)
               else if now + dur < datetime_min \<or> datetime_max < now + dur
                 then (ServerError, db1)
               else (ActivationOk (now + dur),
                     db\<lparr>codes := (codes db)(activation_code b \<mapsto>
                            \<lparr>code_type = card_type b, used_by = Some d\<rparr>),
                        devices := (devices db)(d \<mapsto>
                            b\<lparr>activated_at := now, expires_at := now + dur\<rparr>)\<rparr>))"
proof -
  from assms obtain ci where h:
    "devices db d = Some b" "d \<noteq> []" "activation_code b \<noteq> []"
    "codes db (activation_code b) = Some ci" "code_type ci = card_type b"
    unfolding created_from_def by blast
  define db1 where
    "db1 = db\<lparr>codes := (codes db)(activation_code b \<mapsto> ci\<lparr>used_by := None\<rparr>),
             devices := (devices db)(d := None)\<rparr>"
  have r: "revoke_authorization True [(''machine_id'', d)] db = (Revoked, db1)"
    using h by (simp add: revoke_authorization_def Let_def dict_get_def db1_def)
  have ci: "ci\<lparr>used_by := None\<rparr> = \<lparr>code_type = card_type b, used_by = None\<rparr>"
    "ci\<lparr>used_by := Some d\<rparr> = \<lparr>code_type = card_type b, used_by = Some d\<rparr>"
    using h(5) by simp_all
  have b: "\<And>dur. \<lparr>activation_code = activation_code b, card_type = card_type b,
            activated_at = now, expires_at = now + dur\<rparr>
          = b\<lparr>activated_at := now, expires_at := now + dur\<rparr>"
    by simp
  have 1: "devices db1 d = None"
    and 2: "codes db1 (activation_code b) = Some \<lparr>code_type = card_type b, used_by = None\<rparr>"
    using ci by (simp_all add: db1_def)
  have a: "activate D now [(''machine_id'', d), (''code'', activation_code b)] db1 =
          (case D (card_type b) of
             None \<Rightarrow> (UnknownPlan, db1)
           | Some dur \<Rightarrow>
               if dur = 0 then (UnknownPlan, db1)
               else if now + dur < datetime_min \<or> datetime_max < now + dur
                 then (ServerError, db1)
               else (ActivationOk (now + dur),
                     db\<lparr>codes := (codes db)(activation_code b \<mapsto>
                            \<lparr>code_type = card_type b, used_by = Some d\<rparr>),
                        devices := (devices db)(d \<mapsto>
                            b\<lparr>activated_at := now, expires_at := now + dur\<rparr>)\<rparr>))"
    using h(2,3) 1 2
    by (simp add: activate_def Let_def dict_get_def b split: option.splits)
      (simp add: db1_def)
  from r 1 2 a show ?thesis by blast
qed

theorem revoke_then_activate_witness:
  "revoke_authorization True [(''machine_id'', ''dev-1'')] db_dev1 =
      (Revoked, snd (revoke_authorization True [(''machine_id'', ''dev-1'')] db_dev1))
   \<and> devices (snd (revoke_authorization True [(''machine_id'', ''dev-1'')] db_dev1)) ''dev-1''
       = None
   \<and> codes (snd (revoke_authorization True [(''machine_id'', ''dev-1'')] db_dev1)) ''1A2B3C4D''
       = Some \<lparr>code_type = ''monthly'', used_by = None\<rparr>
   \<and> fst (activate default_durations 7000 [(''machine_id'', ''dev-1''), (''code'', ''1A2B3C4D'')]
        (snd (revoke_authorization True [(''machine_id'', ''dev-1'')] db_dev1)))
       = ActivationOk 2592000007000
   \<and> devices (snd (activate default_durations 7000
          [(''machine_id'', ''dev-1''), (''code'', ''1A2B3C4D'')]
          (snd (revoke_authorization True [(''machine_id'', ''dev-1'')] db_dev1)))) ''dev-1''
       = Some \<lparr>activation_code = ''1A2B3C4D'', card_type = ''monthly'',
               activated_at = 7000, expires_at = 2592000007000\<rparr>"
proof -
  have c: "created_from db_dev1 ''dev-1''
      \<lparr>activation_code = ''1A2B3C4D'', card_type = ''monthly'',
       activated_at = 1000, expires_at = 2592000001000\<rparr>"
    by (simp add: created_from_def db_dev1_simps)
  from revoke_then_activate [OF c, of default_durations 7000]
  show ?thesis
    by (auto simp add: default_durations_monthly datetime_min_def datetime_max_def)
qed

text \<open>
  The claim as it stands fails. The binding of \<open>dev-1\<close> was created from the code
  \<open>1A2B3C4D\<close> and the revocation succeeds; the activation that follows is answered
  \<open>UnknownPlan\<close> once the plan \<open>monthly\<close> is no longer in the configuration, and with a
  server error at the last instant of \<^verbatim>\<open>datetime\<close>, where adding the 30 days overflows.
\<close>

theorem revoke_then_activate_counterexample:
  "devices db_dev1 ''dev-1'' =
      Some \<lparr>activation_code = ''1A2B3C4D'', card_type = ''monthly'',
            activated_at = 1000, expires_at = 2592000001000\<rparr>
   \<and> fst (revoke_authorization True [(''machine_id'', ''dev-1'')] db_dev1) = Revoked
   \<and> fst (activate durations_without_monthly 7000
        [(''machine_id'', ''dev-1''), (''code'', ''1A2B3C4D'')]
        (snd (revoke_authorization True [(''machine_id'', ''dev-1'')] db_dev1))) = UnknownPlan
   \<and> fst (activate default_durations 253402300799999999
        [(''machine_id'', ''dev-1''), (''code'', ''1A2B3C4D'')]
        (snd (revoke_authorization True [(''machine_id'', ''dev-1'')] db_dev1))) = ServerError"
  by (simp add: revoke_authorization_def activate_def Let_def dict_get_def db_dev1_simps
      durations_without_monthly_def CARD_DURATIONS_def default_card_days_def
      default_durations_monthly datetime_min_def datetime_max_def)

section \<open>The group search of the content index\<close>

lemma dict_set_keys: "fst ` set (dict_set k v d) = insert k (fst ` set d)"
  by (induction k v d rule: dict_set.induct) auto

lemma dict_set_distinct: "distinct (map fst d) \<Longrightarrow> distinct (map fst (dict_set k v d))"
proof (induction k v d rule: dict_set.induct)
  case (1 k v)
  then show ?case by simp
next
  case (2 k v k' v' kvs)
  then show ?case
    using dict_set_keys [of k v kvs] by auto
qed

lemma dict_set_subset: "set (dict_set k v d) \<subseteq> insert (k, v) (set d)"
  by (induction k v d rule: dict_set.induct) auto

lemma dict_set_fresh: "k \<notin> fst ` set d \<Longrightarrow> dict_set k v d = d @ [(k, v)]"
  by (induction k v d rule: dict_set.induct) auto

lemma keyed_dict_set: "keyed S d \<Longrightarrow> x \<in> S \<Longrightarrow> keyed S (dict_set (glyph x) x d)"
  unfolding keyed_def
  using dict_set_subset [of "glyph x" x d] dict_set_distinct [of d "glyph x" x]
  by auto

lemma keyed_foldl:
  "keyed S d \<Longrightarrow> set xs \<subseteq> S \<Longrightarrow>
   keyed S (foldl (\<lambda>d item. dict_set (glyph item) item d) d xs)"
  by (induction xs arbitrary: d) (auto simp add: keyed_dict_set)

lemma foldl_keys:
  "fst ` set (foldl (\<lambda>d item. dict_set (glyph item) item d) d xs)
     = fst ` set d \<union> glyph ` set xs"
  by (induction xs arbitrary: d) (auto simp add: dict_set_keys)

lemma foldl_fresh:
  "distinct (map glyph xs) \<Longrightarrow> glyph ` set xs \<inter> fst ` set d = {} \<Longrightarrow>
   foldl (\<lambda>d item. dict_set (glyph item) item d) d xs = d @ map (\<lambda>x. (glyph x, x)) xs"
proof (induction xs arbitrary: d)
  case Nil
  then show ?case by simp
next
  case (Cons x xs)
  from Cons.prems have f: "glyph x \<notin> fst ` set d" by auto
  have "foldl (\<lambda>d item. dict_set (glyph item) item d) (d @ [(glyph x, x)]) xs
        = (d @ [(glyph x, x)]) @ map (\<lambda>x. (glyph x, x)) xs"
    using Cons.prems by (intro Cons.IH) auto
  then show ?case by (simp add: dict_set_fresh [OF f])
qed

lemma unique_results_keyed:
  "keyed (set rs) (foldl (\<lambda>d item. dict_set (glyph item) item d) [] rs)"
  by (rule keyed_foldl) (simp_all add: keyed_def)

lemma unique_results_subset: "set (unique_results rs) \<subseteq> set rs"
  using unique_results_keyed [of rs] unfolding keyed_def unique_results_def by auto

lemma unique_results_glyphs: "glyph ` set (unique_results rs) = glyph ` set rs"
proof -
  let ?d = "foldl (\<lambda>d item. dict_set (glyph item) item d) [] rs"
  have "map glyph (map snd ?d) = map fst ?d"
    using unique_results_keyed [of rs] unfolding keyed_def by auto
  then have "glyph ` set (unique_results rs) = fst ` set ?d"
    unfolding unique_results_def by (metis list.set_map)
  then show ?thesis using foldl_keys [of "[]" rs] by simp
qed

lemma unique_results_distinct: "distinct (map glyph (unique_results rs))"
proof -
  let ?d = "foldl (\<lambda>d item. dict_set (glyph item) item d) [] rs"
  have e: "map (glyph \<circ> snd) ?d = map fst ?d"
    using unique_results_keyed [of rs] unfolding keyed_def by auto
  have "distinct (map fst ?d)"
    using unique_results_keyed [of rs] unfolding keyed_def by simp
  then have "distinct (map (glyph \<circ> snd) ?d)" by (simp only: e)
  then show ?thesis by (simp add: unique_results_def)
qed

lemma unique_results_id: "distinct (map glyph rs) \<Longrightarrow> unique_results rs = rs"
  using foldl_fresh [of rs "[]"] by (simp add: unique_results_def comp_def)

text \<open>
  C8, as amended. For every key \<open>k\<close> of the content index, with entry \<open>e\<close>, the group search
  takes \<open>k\<close> itself as the leader when \<open>e\<close> is marked as a leader, and the back-reference
  \<open>phonetic_radical e\<close> otherwise. With a leader (a non-empty string) it returns entries of
  the index whose back-reference is the leader or whose glyph is the leader, one for each
  glyph among them and no two with the same glyph (all of them, in the order of the index,
  when their glyphs differ); with no leader it returns \<open>e\<close> alone. This is the search the
  specification words, except for a key that is marked as a leader and also refers back to
  another leader: there the key's own group is returned, not the group it is a member of.
\<close>

theorem phonetic_group_search:
  assumes "map_of (dictionary_data idx) k = Some e"
  shows "\<exists>rs. advanced_search lower idx [(''search_type'', ''phonetic_group''), (''query'', k)]
            = SearchResults rs
     \<and> distinct (map glyph rs)
     \<and> (let leader = (if is_phonetic_radical e then Some k else phonetic_radical e);
             members = [x \<leftarrow> map snd (dictionary_data idx).
                          phonetic_radical x = leader \<or> Some (glyph x) = leader]
         in if truthy leader
            then set rs \<subseteq> set members \<and> glyph ` set rs = glyph ` set members
                 \<and> (distinct (map glyph members) \<longrightarrow> rs = members)
            else rs = [e])
     \<and> (\<not> (is_phonetic_radical e \<and> truthy (phonetic_radical e) \<and> phonetic_radical e \<noteq> Some k)
          \<longrightarrow> rs = spec_group_search (dictionary_data idx) k)"
proof -
  let ?leader = "if is_phonetic_radical e then Some k else phonetic_radical e"
  let ?members = "[x \<leftarrow> map snd (dictionary_data idx).
                          phonetic_radical x = ?leader \<or> Some (glyph x) = ?leader]"
  let ?rs = "unique_results (if truthy ?leader then ?members else [e])"
  have a: "advanced_search lower idx [(''search_type'', ''phonetic_group''), (''query'', k)]
            = SearchResults ?rs"
    using assms by (simp add: advanced_search_def dict_get_def Let_def)
  have d: "distinct (map glyph ?rs)" by (rule unique_results_distinct)
  have m: "truthy ?leader \<Longrightarrow>
      set ?rs \<subseteq> set ?members \<and> glyph ` set ?rs = glyph ` set ?members
      \<and> (distinct (map glyph ?members) \<longrightarrow> ?rs = ?members)"
    using unique_results_subset [of ?members] unique_results_glyphs [of ?members]
      unique_results_id [of ?members]
    by simp
  have n: "\<not> truthy ?leader \<Longrightarrow> ?rs = [e]"
    by (simp add: unique_results_def)
  have s: "\<not> (is_phonetic_radical e \<and> truthy (phonetic_radical e) \<and> phonetic_radical e \<noteq> Some k)
          \<Longrightarrow> ?rs = spec_group_search (dictionary_data idx) k"
    using assms
    by (auto simp add: spec_group_search_def spec_group_leader_def unique_results_def)
  show ?thesis
    apply (rule exI [of _ ?rs])
    using a d m n s by (simp add: Let_def)
qed

theorem phonetic_group_search_witness:
  "advanced_search id example_index [(''search_type'', ''phonetic_group''), (''query'', ''jiang'')]
     = SearchResults [e_gong, e_kong, e_jiang]
   \<and> spec_group_search (dictionary_data example_index) ''jiang'' = [e_gong, e_kong, e_jiang]"
  using phonetic_group_search [of example_index "''jiang''" e_jiang id]
  by (auto simp add: example_dictionary example_entries Let_def)

text \<open>
  The claim as it stands fails at the key \<open>kong\<close>, which is marked as a leader and refers
  back to \<open>gong\<close>: resolved through the back-reference, its group is that of \<open>gong\<close>; the
  handler returns the group that \<open>kong\<close> leads.
\<close>

theorem phonetic_group_search_counterexample:
  "map_of (dictionary_data example_index) ''kong'' = Some e_kong
   \<and> spec_group_leader e_kong ''kong'' = Some ''gong''
   \<and> spec_group_search (dictionary_data example_index) ''kong'' = [e_gong, e_kong, e_jiang]
   \<and> advanced_search id example_index [(''search_type'', ''phonetic_group''), (''query'', ''kong'')]
       = SearchResults [e_kong, e_qiang]"
  by (simp add: example_dictionary example_entries spec_group_leader_def spec_group_search_def
      advanced_search_def dict_get_def Let_def unique_results_def)

end
